theory Spec2Isabelle
  imports Main "HOL-Library.Sublist"
begin

section \<open>JSON request bodies and the JavaScript operations the handler applies to them\<close>

text \<open>
  The endpoint \<^verbatim>\<open>handleGenerateSchema\<close> receives \<^verbatim>\<open>req.body\<close>, a parsed JSON document.
  The TypeScript interface \<^verbatim>\<open>SchemaGenerationRequest\<close> is erased at run time, so the body is
  modelled as an arbitrary JSON value; \<open>JUndefined\<close> stands for a body or a field that is
  absent. JSON numbers are restricted to the integers.
\<close>

datatype jsval =
    JUndefined
  | JNull
  | JBool bool
  | JNum int
  | JStr string
  | JArr "jsval list"
  | JObj "(string \<times> jsval) list"

datatype exn = TypeError | InvalidCharacterError

text \<open>Sequencing of computations that may throw: the first exception ends the block.\<close>

definition tryBind :: "exn + 'a \<Rightarrow> ('a \<Rightarrow> exn + 'b) \<Rightarrow> exn + 'b" where
  "tryBind m f = (case m of Inl e \<Rightarrow> Inl e | Inr x \<Rightarrow> f x)"

text \<open>
  \<^verbatim>\<open>!v\<close> is the negation of JavaScript truthiness: \<^verbatim>\<open>undefined\<close>, \<^verbatim>\<open>null\<close>,
  \<^verbatim>\<open>false\<close>, \<^verbatim>\<open>0\<close> and the empty string are falsy, every other value is truthy.
\<close>

fun truthy :: "jsval \<Rightarrow> bool" where
  "truthy JUndefined = False"
| "truthy JNull = False"
| "truthy (JBool b) = b"
| "truthy (JNum n) = (n \<noteq> 0)"
| "truthy (JStr s) = (s \<noteq> [])"
| "truthy (JArr xs) = True"
| "truthy (JObj kvs) = True"

text \<open>
  Reading a property \<^verbatim>\<open>v.k\<close>. On \<^verbatim>\<open>undefined\<close> and \<^verbatim>\<open>null\<close> the read throws a
  TypeError. On an object parsed from JSON it yields the member (the last one when the
  key is repeated, as \<^verbatim>\<open>JSON.parse\<close> keeps it) or \<^verbatim>\<open>undefined\<close>. On a boolean, number,
  string or array it yields \<^verbatim>\<open>undefined\<close> for each of the names the handler reads
  (\<^verbatim>\<open>inputCode\<close>, \<^verbatim>\<open>inputType\<close>, \<^verbatim>\<open>options\<close>, \<^verbatim>\<open>outputFormat\<close>, \<^verbatim>\<open>databaseType\<close>,
  \<^verbatim>\<open>suggestAPI\<close>, \<^verbatim>\<open>generateERD\<close>), none of which is defined by a built-in prototype.
\<close>

fun getProp :: "jsval \<Rightarrow> string \<Rightarrow> exn + jsval" where
  "getProp JUndefined k = Inl TypeError"
| "getProp JNull k = Inl TypeError"
| "getProp (JObj kvs) k = Inr (case map_of (rev kvs) k of None \<Rightarrow> JUndefined | Some v \<Rightarrow> v)"
| "getProp (JBool b) k = Inr JUndefined"
| "getProp (JNum n) k = Inr JUndefined"
| "getProp (JStr s) k = Inr JUndefined"
| "getProp (JArr xs) k = Inr JUndefined"

text \<open>
  A value used as a property key is converted to a string first. The decimal numeral of
  an integer is what \<^verbatim>\<open>String(n)\<close> returns for magnitudes below \<open>10\<^sup>2\<^sup>1\<close> (beyond,
  JavaScript writes an exponent; either way the string starts with a digit or a minus
  sign). An array is converted by \<^verbatim>\<open>join\<close>: its
  elements, converted in turn and separated by commas, with \<^verbatim>\<open>null\<close> and \<^verbatim>\<open>undefined\<close>
  elements giving the empty string. An object parsed from JSON inherits \<^verbatim>\<open>toString\<close>
  from \<^verbatim>\<open>Object.prototype\<close>, which returns \<^verbatim>\<open>[object Object]\<close>; when the object has a
  member of its own named \<^verbatim>\<open>toString\<close>, that member is no function and the inherited
  \<^verbatim>\<open>valueOf\<close> returns no primitive, so the conversion throws a TypeError.
\<close>

fun showNat :: "nat \<Rightarrow> string" where
  "showNat n =
     (if n < 10 then [''0123456789'' ! n]
      else showNat (n div 10) @ [''0123456789'' ! (n mod 10)])"

declare showNat.simps [simp del]

definition joinWith :: "string \<Rightarrow> string list \<Rightarrow> string" where
  "joinWith sep ls = concat (butlast (concat (map (\<lambda>l. [l, sep]) ls)))"

fun toPropertyKey :: "jsval \<Rightarrow> exn + string"
  and elementStrings :: "jsval list \<Rightarrow> exn + string list" where
  "toPropertyKey JUndefined = Inr ''undefined''"
| "toPropertyKey JNull = Inr ''null''"
| "toPropertyKey (JBool b) = Inr (if b then ''true'' else ''false'')"
| "toPropertyKey (JNum n) =
     Inr (if n < 0 then ''-'' @ showNat (nat (- n)) else showNat (nat n))"
| "toPropertyKey (JStr s) = Inr s"
| "toPropertyKey (JArr xs) =
     (case elementStrings xs of Inl e \<Rightarrow> Inl e | Inr ss \<Rightarrow> Inr (joinWith '','' ss))"
| "toPropertyKey (JObj kvs) =
     (if ''toString'' \<in> set (map fst kvs) then Inl TypeError else Inr ''[object Object]'')"
| "elementStrings [] = Inr []"
| "elementStrings (x # xs) =
     (case (case x of JUndefined \<Rightarrow> Inr [] | JNull \<Rightarrow> Inr [] | _ \<Rightarrow> toPropertyKey x) of
        Inl e \<Rightarrow> Inl e
      | Inr s \<Rightarrow> (case elementStrings xs of Inl e \<Rightarrow> Inl e | Inr ss \<Rightarrow> Inr (s # ss)))"

text \<open>
  Indexing an object literal whose own members are strings, \<^verbatim>\<open>obj[key]\<close>: an own member,
  else a member inherited from \<^verbatim>\<open>Object.prototype\<close> (a built-in function, or the prototype
  itself for \<^verbatim>\<open>__proto__\<close>), else \<^verbatim>\<open>undefined\<close>.
\<close>

datatype member = Own string | Inherited string | Undefined

definition objectPrototypeKeys :: "string list" where
  "objectPrototypeKeys =
     [''constructor'', ''__defineGetter__'', ''__defineSetter__'', ''hasOwnProperty'',
      ''__lookupGetter__'', ''__lookupSetter__'', ''isPrototypeOf'', ''propertyIsEnumerable'',
      ''toString'', ''valueOf'', ''__proto__'', ''toLocaleString'']"

definition index :: "(string \<times> string) list \<Rightarrow> jsval \<Rightarrow> exn + member" where
  "index obj key =
     tryBind (toPropertyKey key) (\<lambda>k.
     Inr (case map_of obj k of
            Some v \<Rightarrow> Own v
          | None \<Rightarrow> if k \<in> set objectPrototypeKeys then Inherited k else Undefined))"

text \<open>A template literal that spans several source lines: the lines joined by newlines.\<close>

definition joinLines :: "string list \<Rightarrow> string" where
  "joinLines ls = joinWith ''\<newline>'' ls"

section \<open>Platform functions: UTF-8, Base64, string splitting\<close>

text \<open>
  A \<open>char\<close> is one code unit below 256; a byte is a \<open>char\<close> too, read as a number by
  \<open>of_char\<close>. \<^verbatim>\<open>Buffer.from(s)\<close> encodes the text in UTF-8: a code unit below 128 is one
  byte, any other code unit below 256 is two bytes.
\<close>

definition utf8 :: "string \<Rightarrow> string" where
  "utf8 s =
     concat (map (\<lambda>c. let n = (of_char c :: nat) in
                        if n < 128 then [c]
                        else [char_of (192 + n div 64), char_of (128 + n mod 64)]) s)"

definition b64alphabet :: string where
  "b64alphabet = ''ABCDEFGHIJKLMNOPQRSTUVWXYZabcdefghijklmnopqrstuvwxyz0123456789+/''"

definition b64char :: "nat \<Rightarrow> char" where
  "b64char n = b64alphabet ! n"

fun indexOf :: "'a list \<Rightarrow> 'a \<Rightarrow> nat" where
  "indexOf [] x = 0"
| "indexOf (y # ys) x = (if x = y then 0 else Suc (indexOf ys x))"

definition b64index :: "char \<Rightarrow> nat" where
  "b64index c = indexOf b64alphabet c"

text \<open>\<^verbatim>\<open>buffer.toString('base64')\<close>: three bytes give four characters, the rest is padded.\<close>

fun base64 :: "string \<Rightarrow> string" where
  "base64 (a # b # c # rest) =
     [b64char (of_char a div 4),
      b64char (of_char a mod 4 * 16 + of_char b div 16),
      b64char (of_char b mod 16 * 4 + of_char c div 64),
      b64char (of_char c mod 64)] @ base64 rest"
| "base64 [a, b] =
     [b64char (of_char a div 4),
      b64char (of_char a mod 4 * 16 + of_char b div 16),
      b64char (of_char b mod 16 * 4),
      CHR ''='']"
| "base64 [a] =
     [b64char (of_char a div 4),
      b64char (of_char a mod 4 * 16),
      CHR ''='', CHR ''='']"
| "base64 [] = []"

text \<open>
  \<^verbatim>\<open>atob\<close> is the forgiving Base64 decoder: ASCII whitespace is removed; when the length
  is a multiple of four, one or two trailing \<^verbatim>\<open>=\<close> are removed; a length that leaves
  remainder one, or a character outside the alphabet, throws; every four characters give
  three bytes, and the bits left over at the end are dropped.
\<close>

definition isAsciiWhitespace :: "char \<Rightarrow> bool" where
  "isAsciiWhitespace c = (c \<in> set [CHR 0x09, CHR 0x0A, CHR 0x0C, CHR 0x0D, CHR 0x20])"

definition removePadding :: "string \<Rightarrow> string" where
  "removePadding d =
     (if length d mod 4 = 0 then
        (if suffix ''=='' d then take (length d - 2) d
         else if suffix ''='' d then take (length d - 1) d
         else d)
      else d)"

fun b64decode :: "string \<Rightarrow> string" where
  "b64decode (w # x # y # z # rest) =
     [char_of (b64index w * 4 + b64index x div 16),
      char_of (b64index x mod 16 * 16 + b64index y div 4),
      char_of (b64index y mod 4 * 64 + b64index z)] @ b64decode rest"
| "b64decode [w, x, y] =
     [char_of (b64index w * 4 + b64index x div 16),
      char_of (b64index x mod 16 * 16 + b64index y div 4)]"
| "b64decode [w, x] = [char_of (b64index w * 4 + b64index x div 16)]"
| "b64decode [w] = []"
| "b64decode [] = []"

definition atob :: "string \<Rightarrow> exn + string" where
  "atob data =
     (let d = removePadding (filter (\<lambda>c. \<not> isAsciiWhitespace c) data) in
      if length d mod 4 = 1 then Inl InvalidCharacterError
      else if list_all (\<lambda>c. c \<in> set b64alphabet) d then Inr (b64decode d)
      else Inl InvalidCharacterError)"

text \<open>\<^verbatim>\<open>s.split(sep)\<close> for a one-character separator; \<open>cur\<close> is the piece being read, reversed.\<close>

fun splitAcc :: "char \<Rightarrow> string \<Rightarrow> string \<Rightarrow> string list" where
  "splitAcc sep cur [] = [rev cur]"
| "splitAcc sep cur (c # cs) =
     (if c = sep then rev cur # splitAcc sep [] cs else splitAcc sep (c # cur) cs)"

definition split :: "string \<Rightarrow> char \<Rightarrow> string list" where
  "split s sep = splitAcc sep [] s"

section \<open>The generation endpoint\<close>

text \<open>
  The response object handed to \<^verbatim>\<open>res.json\<close> (interface \<^verbatim>\<open>SchemaGenerationResponse\<close>).
  An optional member that was never assigned is \<open>None\<close>; \<^verbatim>\<open>schema\<close> holds whatever the
  lookup in \<^verbatim>\<open>mockSchemas\<close> returned.
\<close>

record SchemaGenerationResponse =
  schema :: member
  erdImageUrl :: "string option"
  apiRoutes :: "string option"
  explanation :: "string option"

text \<open>The canned texts, as the source writes them.\<close>

definition mockSchemas_prisma :: string where
  \<open>mockSchemas_prisma = joinLines
    [''generator client {'',
     ''  provider = "prisma-client-js"'',
     ''}'',
     '''',
     ''datasource db {'',
     ''  provider = "postgresql"'',
     ''  url      = env("DATABASE_URL")'',
     ''}'',
     '''',
     ''model User {'',
     ''  id        String   @id @default(cuid())'',
     ''  email     String   @unique'',
     ''  name      String?'',
     ''  createdAt DateTime @default(now())'',
     ''  updatedAt DateTime @updatedAt'',
     ''  posts     Post[]'',
     ''  profile   Profile?'',
     ''}'',
     '''',
     ''model Profile {'',
     ''  id     String  @id @default(cuid())'',
     ''  bio    String?'',
     ''  avatar String?'',
     ''  userId String  @unique'',
     ''  user   User    @relation(fields: [userId], references: [id])'',
     ''}'',
     '''',
     ''model Post {'',
     ''  id        String   @id @default(cuid())'',
     ''  title     String'',
     ''  content   String?'',
     ''  published Boolean  @default(false)'',
     ''  authorId  String'',
     ''  author    User     @relation(fields: [authorId], references: [id])'',
     ''  createdAt DateTime @default(now())'',
     ''  updatedAt DateTime @updatedAt'',
     ''}'']\<close>

definition mockSchemas_sql :: string where
  \<open>mockSchemas_sql = joinLines
    [''CREATE TABLE users ('',
     ''  id SERIAL PRIMARY KEY,'',
     ''  email VARCHAR(255) UNIQUE NOT NULL,'',
     ''  name VARCHAR(255),'',
     ''  created_at TIMESTAMP DEFAULT NOW(),'',
     ''  updated_at TIMESTAMP DEFAULT NOW()'',
     '');'',
     '''',
     ''CREATE TABLE profiles ('',
     ''  id SERIAL PRIMARY KEY,'',
     ''  bio TEXT,'',
     ''  avatar VARCHAR(255),'',
     ''  user_id INTEGER UNIQUE REFERENCES users(id) ON DELETE CASCADE'',
     '');'',
     '''',
     ''CREATE TABLE posts ('',
     ''  id SERIAL PRIMARY KEY,'',
     ''  title VARCHAR(255) NOT NULL,'',
     ''  content TEXT,'',
     ''  published BOOLEAN DEFAULT false,'',
     ''  author_id INTEGER REFERENCES users(id) ON DELETE CASCADE,'',
     ''  created_at TIMESTAMP DEFAULT NOW(),'',
     ''  updated_at TIMESTAMP DEFAULT NOW()'',
     '');'']\<close>

definition mockSchemas_mongodb :: string where
  \<open>mockSchemas_mongodb = joinLines
    [''{'',
     ''  "users": {'',
     ''    "_id": "ObjectId",'',
     ''    "email": "String (unique, required)",'',
     ''    "name": "String (optional)",'',
     ''    "profile": {'',
     ''      "bio": "String (optional)",'',
     ''      "avatar": "String (optional)"'',
     ''    },'',
     ''    "createdAt": "Date",'',
     ''    "updatedAt": "Date"'',
     ''  },'',
     ''  "posts": {'',
     ''    "_id": "ObjectId",'',
     ''    "title": "String (required)",'',
     ''    "content": "String (optional)",'',
     ''    "published": "Boolean (default: false)",'',
     ''    "authorId": "ObjectId (ref: users._id)",'',
     ''    "createdAt": "Date",'',
     ''    "updatedAt": "Date"'',
     ''  }'',
     ''}'']\<close>

definition mockSchemas_firebase :: string where
  \<open>mockSchemas_firebase = joinLines
    [''{'',
     ''  "users": {'',
     ''    "rules": {'',
     ''      "$uid": {'',
     ''        ".read": "$uid === auth.uid",'',
     ''        ".write": "$uid === auth.uid",'',
     ''        ".validate": "newData.hasChildren(['email', 'createdAt'])"'',
     ''      }'',
     ''    },'',
     ''    "structure": {'',
     ''      "email": "string",'',
     ''      "name": "string",'',
     ''      "profile": {'',
     ''        "bio": "string",'',
     ''        "avatar": "string"'',
     ''      },'',
     ''      "createdAt": "timestamp",'',
     ''      "updatedAt": "timestamp"'',
     ''    }'',
     ''  },'',
     ''  "posts": {'',
     ''    "rules": {'',
     ''      ".read": true,'',
     ''      "$postId": {'',
     ''        ".write": "auth != null && auth.uid == data.child('authorId').val()"'',
     ''      }'',
     ''    },'',
     ''    "structure": {'',
     ''      "title": "string",'',
     ''      "content": "string",'',
     ''      "published": "boolean",'',
     ''      "authorId": "string",'',
     ''      "createdAt": "timestamp",'',
     ''      "updatedAt": "timestamp"'',
     ''    }'',
     ''  }'',
     ''}'']\<close>

definition mockSchemas :: "(string \<times> string) list" where
  "mockSchemas =
     [(''prisma'', mockSchemas_prisma),
      (''sql'', mockSchemas_sql),
      (''mongodb'', mockSchemas_mongodb),
      (''firebase'', mockSchemas_firebase)]"

definition mockAPIRoutes :: string where
  \<open>mockAPIRoutes = joinLines
    [''// User Routes'',
     ''POST   /api/users                 - Create user'',
     ''GET    /api/users/:id             - Get user by ID'',
     ''PUT    /api/users/:id             - Update user'',
     ''DELETE /api/users/:id             - Delete user'',
     ''GET    /api/users/:id/profile     - Get user profile'',
     '''',
     ''// Post Routes'',
     ''GET    /api/posts                 - Get all posts'',
     ''POST   /api/posts                 - Create post'',
     ''GET    /api/posts/:id             - Get post by ID'',
     ''PUT    /api/posts/:id             - Update post'',
     ''DELETE /api/posts/:id             - Delete post'',
     ''GET    /api/posts/user/:userId    - Get posts by user'',
     '''',
     ''// Authentication'',
     ''POST   /api/auth/login            - User login'',
     ''POST   /api/auth/logout           - User logout'',
     ''POST   /api/auth/register         - User registration'',
     ''GET    /api/auth/me               - Get current user'']\<close>

definition mockExplanation :: string where
  \<open>mockExplanation = joinLines
    [''Based on your frontend code analysis, I've identified the following data relationships and designed an optimal schema:'',
     '''',
     ''**Key Entities Identified:**'',
     ''- **User**: Core entity representing app users with authentication'',
     ''- **Profile**: Extended user information with bio and avatar'',
     ''- **Post**: Content created by users with publishing status'',
     '''',
     ''**Design Decisions:**'',
     ''1. **Normalized Structure**: Separated profile from user table to reduce data redundancy'',
     ''2. **Foreign Key Relationships**: Established proper relationships between users and posts'',
     ''3. **Indexing Strategy**: Email uniqueness constraint for authentication'',
     ''4. **Timestamps**: Added created/updated timestamps for audit trail'',
     ''5. **Soft Dependencies**: Profile is optional, allowing flexible user onboarding'',
     '''',
     ''**Performance Considerations:**'',
     ''- Email field indexed for fast login queries'',
     ''- Author relationship indexed for efficient post retrieval'',
     ''- Optional fields allow for gradual data collection'',
     '''',
     ''This schema supports scalability while maintaining data integrity and query performance.'']\<close>

text \<open>The diagram source; neither parameter is used.\<close>

definition generateERDiagram :: "jsval \<Rightarrow> jsval \<Rightarrow> string" where
  \<open>generateERDiagram outputFormat databaseType = joinLines
    [''erDiagram'',
     ''    USER {'',
     ''        string id PK'',
     ''        string email UK'',
     ''        string name'',
     ''        datetime created_at'',
     ''        datetime updated_at'',
     ''    }'',
     '''',
     ''    PROFILE {'',
     ''        string id PK'',
     ''        string bio'',
     ''        string avatar'',
     ''        string user_id FK'',
     ''    }'',
     '''',
     ''    POST {'',
     ''        string id PK'',
     ''        string title'',
     ''        string content'',
     ''        boolean published'',
     ''        string author_id FK'',
     ''        datetime created_at'',
     ''        datetime updated_at'',
     ''    }'',
     '''',
     ''    USER ||--o{ POST : "creates"'',
     ''    USER ||--|| PROFILE : "has"'',
     '''']\<close>

text \<open>
  What a run of the handler does, in order: the awaited timer, the log line of the
  \<^verbatim>\<open>catch\<close> block, and the response sent (\<^verbatim>\<open>res.json\<close> alone sends status 200).
\<close>

datatype resBody = ErrorBody string | ResponseBody SchemaGenerationResponse

datatype effect = SetTimeout nat | ConsoleError string exn | ResJson nat resBody

text \<open>
  \<^verbatim>\<open>const { inputCode, inputType, options } = req.body\<close>: throws when the body is
  \<^verbatim>\<open>undefined\<close> or \<^verbatim>\<open>null\<close>.
\<close>

definition destructure :: "jsval \<Rightarrow> exn + jsval \<times> jsval \<times> jsval" where
  "destructure body =
     tryBind (getProp body ''inputCode'') (\<lambda>inputCode.
     tryBind (getProp body ''inputType'') (\<lambda>inputType.
     tryBind (getProp body ''options'') (\<lambda>options.
     Inr (inputCode, inputType, options))))"

text \<open>The statements from the lookup of the schema to the completed response object.\<close>

definition buildResponse :: "jsval \<Rightarrow> exn + SchemaGenerationResponse" where
  "buildResponse options =
     tryBind (getProp options ''outputFormat'') (\<lambda>outputFormat.
     tryBind (index mockSchemas outputFormat) (\<lambda>schema.
     let response = \<lparr>schema = schema, erdImageUrl = None, apiRoutes = None,
                     explanation = Some mockExplanation\<rparr> in
     tryBind (getProp options ''suggestAPI'') (\<lambda>suggestAPI.
     let response = (if truthy suggestAPI then response\<lparr>apiRoutes := Some mockAPIRoutes\<rparr>
                     else response) in
     tryBind (getProp options ''generateERD'') (\<lambda>generateERD.
     if truthy generateERD then
       tryBind (getProp options ''outputFormat'') (\<lambda>outputFormat.
       tryBind (getProp options ''databaseType'') (\<lambda>databaseType.
       let erdDiagram = generateERDiagram outputFormat databaseType in
       Inr (response\<lparr>erdImageUrl :=
              Some (''data:text/plain;base64,'' @ base64 (utf8 erdDiagram))\<rparr>)))
     else Inr response))))"

text \<open>
  The \<^verbatim>\<open>try\<close> block: the effects it performed, and the exception that ended it, if any.
\<close>

definition tryBlock :: "jsval \<Rightarrow> effect list \<times> exn option" where
  "tryBlock body =
     (case destructure body of
        Inl e \<Rightarrow> ([], Some e)
      | Inr (inputCode, inputType, options) \<Rightarrow>
          if \<not> truthy inputCode
          then ([ResJson 400 (ErrorBody ''Input code is required'')], None)
          else (case buildResponse options of
                  Inl e \<Rightarrow> ([SetTimeout 2000], Some e)
                | Inr response \<Rightarrow>
                    ([SetTimeout 2000, ResJson 200 (ResponseBody response)], None)))"

definition handleGenerateSchema :: "jsval \<Rightarrow> effect list" where
  "handleGenerateSchema body =
     (case tryBlock body of
        (effects, None) \<Rightarrow> effects
      | (effects, Some error) \<Rightarrow>
          effects @ [ConsoleError ''Schema generation error:'' error,
                     ResJson 500 (ErrorBody ''Failed to generate schema'')])"

section \<open>The client\<close>

text \<open>
  The \<^verbatim>\<open>chart\<close> property passed to \<^verbatim>\<open>MermaidDiagram\<close>:
  \<^verbatim>\<open>url.startsWith('data:') ? atob(url.split(',')[1]) : url\<close>. When the split has no
  second piece, \<^verbatim>\<open>atob\<close> receives \<^verbatim>\<open>undefined\<close>, which it reads as the text "undefined".
\<close>

definition chart :: "string \<Rightarrow> exn + string" where
  "chart url =
     (if prefix ''data:'' url
      then atob (case split url CHR '','' of _ # piece # _ \<Rightarrow> piece | _ \<Rightarrow> ''undefined'')
      else Inr url)"

text \<open>The state of the \<^verbatim>\<open>Index\<close> component that submission depends on.\<close>

record ClientState =
  selectedInputType :: string
  inputCode :: string
  figmaUrl :: string
  outputFormat :: string
  databaseType :: string
  suggestAPI :: bool
  generateERD :: bool
  isGenerating :: bool

text \<open>The \<^verbatim>\<open>disabled\<close> property of the submit button.\<close>

definition disabled :: "ClientState \<Rightarrow> bool" where
  "disabled s = (isGenerating s \<or> (inputCode s = [] \<and> figmaUrl s = []))"

text \<open>The request body that \<^verbatim>\<open>handleGenerate\<close> sends.\<close>

definition payload :: "ClientState \<Rightarrow> jsval" where
  "payload s =
     JObj [(''inputCode'',
              JStr (if selectedInputType s = ''figma'' then figmaUrl s else inputCode s)),
           (''inputType'', JStr (selectedInputType s)),
           (''options'',
              JObj [(''outputFormat'', JStr (outputFormat s)),
                    (''databaseType'', JStr (databaseType s)),
                    (''suggestAPI'', JBool (suggestAPI s)),
                    (''generateERD'', JBool (generateERD s))])]"

text \<open>
  A click on the submit button: a disabled button ignores it; otherwise \<^verbatim>\<open>handleGenerate\<close>
  marks the submission as in flight and sends the payload.
\<close>

definition handleGenerate :: "ClientState \<Rightarrow> ClientState \<times> jsval" where
  "handleGenerate s = (s\<lparr>isGenerating := True\<rparr>, payload s)"

definition onClick :: "ClientState \<Rightarrow> ClientState \<times> jsval option" where
  "onClick s =
     (if disabled s then (s, None)
      else (case handleGenerate s of (s', body) \<Rightarrow> (s', Some body)))"

section \<open>Notions used to state the properties\<close>

text \<open>The responses a run sends, in order: status and body.\<close>

fun responses :: "effect list \<Rightarrow> (nat \<times> resBody) list" where
  "responses [] = []"
| "responses (ResJson status b # es) = (status, b) # responses es"
| "responses (SetTimeout ms # es) = responses es"
| "responses (ConsoleError msg e # es) = responses es"

text \<open>
  The Base64 text before padding, and the padding: \<open>base64\<close> is the one followed by the
  other (lemma \<open>base64_body_padding\<close>).
\<close>

fun base64body :: "string \<Rightarrow> string" where
  "base64body (a # b # c # rest) =
     [b64char (of_char a div 4),
      b64char (of_char a mod 4 * 16 + of_char b div 16),
      b64char (of_char b mod 16 * 4 + of_char c div 64),
      b64char (of_char c mod 64)] @ base64body rest"
| "base64body [a, b] =
     [b64char (of_char a div 4),
      b64char (of_char a mod 4 * 16 + of_char b div 16),
      b64char (of_char b mod 16 * 4)]"
| "base64body [a] =
     [b64char (of_char a div 4),
      b64char (of_char a mod 4 * 16)]"
| "base64body [] = []"

definition padding :: "string \<Rightarrow> string" where
  "padding bs =
     (if length bs mod 3 = 1 then ''==''
      else if length bs mod 3 = 2 then ''=''
      else [])"

text \<open>
  A diagram description is read line by line, each line as its blank-separated tokens.
  An entity block opens with a line \<^verbatim>\<open>NAME {\<close> and is closed by a later line \<^verbatim>\<open>}\<close>;
  a relationship line reads \<^verbatim>\<open>A <cardinality>--<cardinality> B : label\<close>.
\<close>

definition tokens :: "string \<Rightarrow> string list" where
  "tokens l = filter (\<lambda>w. w \<noteq> []) (split l CHR '' '')"

fun entityBlocks :: "string list list \<Rightarrow> string list" where
  "entityBlocks [] = []"
| "entityBlocks (ts # rest) =
     (case ts of
        [name, brace] \<Rightarrow>
          if brace = ''{'' \<and> list_ex (\<lambda>us. us = [''}'']) rest then [name] else []
      | _ \<Rightarrow> []) @ entityBlocks rest"

definition isRelationship :: "string \<Rightarrow> bool" where
  "isRelationship l =
     (case tokens l of
        a # rel # b # colon # label # _ \<Rightarrow> sublist ''--'' rel \<and> colon = '':''
      | _ \<Rightarrow> False)"

definition relationships :: "string \<Rightarrow> string list list" where
  "relationships text = map tokens (filter isRelationship (split text CHR ''\<newline>''))"

definition entities :: "string \<Rightarrow> string list" where
  "entities text = entityBlocks (map tokens (split text CHR ''\<newline>''))"

text \<open>
  Concrete inputs. \<open>scenarioRequest\<close> is the payload of a client that pasted markup,
  chose SQL for PostgreSQL and left both switches on, and \<open>scenarioResponse\<close> is the
  response object expected for it; \<open>figmaRequest\<close> has the same three deciding options
  and differs in everything else. In \<open>reactTabWithFigmaUrl\<close> the React tab is selected
  and its text buffer is empty, while the Figma field still holds a URL.
\<close>

definition scenarioOptions :: jsval where
  "scenarioOptions =
     JObj [(''outputFormat'', JStr ''sql''),
           (''databaseType'', JStr ''postgresql''),
           (''suggestAPI'', JBool True),
           (''generateERD'', JBool True)]"

definition scenarioRequest :: jsval where
  "scenarioRequest =
     JObj [(''inputCode'', JStr ''<div>x</div>''),
           (''inputType'', JStr ''html''),
           (''options'', scenarioOptions)]"

definition scenarioResponse :: SchemaGenerationResponse where
  "scenarioResponse =
     \<lparr>schema = Own mockSchemas_sql,
      erdImageUrl = Some (''data:text/plain;base64,'' @
                          base64 (utf8 (generateERDiagram (JStr ''sql'') (JStr ''postgresql'')))),
      apiRoutes = Some mockAPIRoutes,
      explanation = Some mockExplanation\<rparr>"

definition figmaOptions :: jsval where
  "figmaOptions =
     JObj [(''generateERD'', JBool True),
           (''suggestAPI'', JBool True),
           (''databaseType'', JStr ''mysql''),
           (''outputFormat'', JStr ''sql'')]"

definition figmaRequest :: jsval where
  "figmaRequest =
     JObj [(''inputCode'', JStr ''https://figma.com/file/abc''),
           (''inputType'', JStr ''figma''),
           (''options'', figmaOptions)]"

definition reactTabWithFigmaUrl :: ClientState where
  "reactTabWithFigmaUrl =
     \<lparr>selectedInputType = ''react'', inputCode = [], figmaUrl = ''https://figma.com/file/abc'',
      outputFormat = ''prisma'', databaseType = ''postgresql'', suggestAPI = True,
      generateERD = True, isGenerating = False\<rparr>"

section \<open>Base64: decoding what was encoded\<close>

lemma length_b64alphabet: "length b64alphabet = 64"
  by (simp add: b64alphabet_def)

lemma distinct_b64alphabet: "distinct b64alphabet"
  by (simp add: b64alphabet_def)

lemma indexOf_nth: "distinct xs \<Longrightarrow> n < length xs \<Longrightarrow> indexOf xs (xs ! n) = n"
proof (induction xs arbitrary: n)
  case Nil
  then show ?case by simp
next
  case (Cons x xs)
  show ?case
  proof (cases n)
    case 0
    then show ?thesis by simp
  next
    case (Suc m)
    with Cons.prems have "xs ! m \<in> set xs" "x \<notin> set xs" by auto
    then have "xs ! m \<noteq> x" by auto
    with Suc Cons show ?thesis by simp
  qed
qed

lemma b64index_b64char: "n < 64 \<Longrightarrow> b64index (b64char n) = n"
  unfolding b64index_def b64char_def
  by (rule indexOf_nth) (simp_all add: distinct_b64alphabet length_b64alphabet)

lemma b64char_in_alphabet: "n < 64 \<Longrightarrow> b64char n \<in> set b64alphabet"
  unfolding b64char_def by (rule nth_mem) (simp add: length_b64alphabet)

lemma alphabet_not_special:
  assumes "c \<in> set b64alphabet"
  shows "\<not> isAsciiWhitespace c" and "c \<noteq> CHR ''=''" and "c \<noteq> CHR '',''"
  using assms by (auto simp add: b64alphabet_def isAsciiWhitespace_def)

lemma of_char_bound: "(of_char (c::char) :: nat) < 256"
  by (rule of_char_mod_256 [where ?'a = nat, THEN subst]) simp

text \<open>The four six-bit groups of three bytes are below 64.\<close>

lemma sextet1: "(x::nat) < 256 \<Longrightarrow> x div 4 < 64"
  by simp

lemma sextet2: "(y::nat) < 256 \<Longrightarrow> x mod 4 * 16 + y div 16 < 64"
proof -
  assume "y < 256"
  then have "y div 16 < 16" by simp
  moreover have "x mod 4 < 4" by simp
  then have "x mod 4 * 16 \<le> 3 * 16" by (intro mult_le_mono1) simp
  ultimately show ?thesis by simp
qed

lemma sextet3: "(z::nat) < 256 \<Longrightarrow> y mod 16 * 4 + z div 64 < 64"
proof -
  assume "z < 256"
  then have "z div 64 < 4" by simp
  moreover have "y mod 16 < 16" by simp
  then have "y mod 16 * 4 \<le> 15 * 4" by (intro mult_le_mono1) simp
  ultimately show ?thesis by simp
qed

lemma sextet3_last: "(y::nat) mod 16 * 4 < 64"
  using sextet3 [of 0 y] by simp

lemma sextet2_last: "(x::nat) mod 4 * 16 < 64"
  using sextet2 [of 0 x] by simp

text \<open>The three bytes are recovered from their six-bit groups.\<close>

lemma octet1: "(y::nat) < 256 \<Longrightarrow> x div 4 * 4 + (x mod 4 * 16 + y div 16) div 16 = x"
proof -
  assume "y < 256"
  then have "y div 16 < 16" by simp
  then have "(x mod 4 * 16 + y div 16) div 16 = x mod 4" by simp
  then show ?thesis by simp
qed

lemma octet2:
  "(z::nat) < 256 \<Longrightarrow> y < 256 \<Longrightarrow>
     (x mod 4 * 16 + y div 16) mod 16 * 16 + (y mod 16 * 4 + z div 64) div 4 = y"
proof -
  assume "z < 256" "y < 256"
  then have "y div 16 < 16" "z div 64 < 4" by simp_all
  then have "(x mod 4 * 16 + y div 16) mod 16 = y div 16"
    and "(y mod 16 * 4 + z div 64) div 4 = y mod 16" by simp_all
  then show ?thesis by simp
qed

lemma octet3: "(z::nat) < 256 \<Longrightarrow> (y mod 16 * 4 + z div 64) mod 4 * 64 + z mod 64 = z"
proof -
  assume "z < 256"
  then have "z div 64 < 4" by simp
  then have "(y mod 16 * 4 + z div 64) mod 4 = z div 64" by simp
  then show ?thesis by simp
qed

lemma octet2_last:
  "(y::nat) < 256 \<Longrightarrow> (x mod 4 * 16 + y div 16) mod 16 * 16 + y mod 16 * 4 div 4 = y"
  using octet2 [of 0 y x] by simp

lemma octet1_last: "(x::nat) div 4 * 4 + x mod 4 * 16 div 16 = x"
  using octet1 [of 0 x] by simp

lemmas sextet_bounds =
  sextet1 [OF of_char_bound] sextet2 [OF of_char_bound] sextet3 [OF of_char_bound]
  sextet3_last sextet2_last

lemmas octet_rebuild =
  octet1 [OF of_char_bound] octet2 [OF of_char_bound of_char_bound] octet3 [OF of_char_bound]
  octet2_last [OF of_char_bound] octet1_last

lemma padding_step: "padding (a # b # c # rest) = padding rest"
  by (simp add: padding_def)

lemma base64_body_padding: "base64 bs = base64body bs @ padding bs"
proof (induction bs rule: base64.induct)
  case (1 a b c rest)
  then show ?case by (simp add: padding_step)
qed (simp_all add: padding_def)

lemma base64body_alphabet: "set (base64body bs) \<subseteq> set b64alphabet"
  by (induction bs rule: base64body.induct) (simp_all add: b64char_in_alphabet sextet_bounds)

lemma length_base64body: "length (base64body bs) mod 4 \<noteq> Suc 0"
  by (induction bs rule: base64body.induct) simp_all

lemma length_base64: "length (base64 bs) mod 4 = 0"
  by (induction bs rule: base64.induct) simp_all

lemma b64decode_base64body: "b64decode (base64body bs) = bs"
  by (induction bs rule: base64body.induct)
     (simp_all only: base64body.simps b64decode.simps append.simps b64index_b64char
        sextet_bounds octet_rebuild add_0_right char_of_char)

lemma no_pad_in_body: "CHR ''='' \<notin> set (base64body bs)"
  using base64body_alphabet [of bs] alphabet_not_special(2) by blast

lemma removePadding_base64: "removePadding (base64 bs) = base64body bs"
proof -
  have len: "length (base64body bs @ padding bs) mod 4 = 0"
    using length_base64 [of bs] by (simp add: base64_body_padding)
  have nosuf: "\<not> suffix ''='' (base64body bs)"
    using no_pad_in_body [of bs] set_mono_suffix [of "''=''" "base64body bs"] by auto
  consider "padding bs = []" | "padding bs = ''==''" | "padding bs = ''=''"
    by (cases "length bs mod 3 = Suc 0"; cases "length bs mod 3 = 2")
       (simp_all add: padding_def)
  then show ?thesis
  proof cases
    case 1
    have "\<not> suffix ''=='' (base64body bs)"
      using no_pad_in_body [of bs] set_mono_suffix [of "''==''" "base64body bs"] by auto
    with 1 nosuf show ?thesis
      by (simp add: removePadding_def base64_body_padding)
  next
    case 2
    have "suffix ''=='' (base64body bs @ ''=='')" by (rule suffix_appendI) simp
    with 2 len show ?thesis
      by (simp add: removePadding_def base64_body_padding)
  next
    case 3
    have "\<not> suffix ''=='' (base64body bs @ ''='')"
      using nosuf snoc_suffix_snoc [of "''=''" "CHR ''=''" "base64body bs" "CHR ''=''"]
      by simp
    moreover have "suffix ''='' (base64body bs @ ''='')" by (rule suffix_appendI) simp
    ultimately show ?thesis using 3 len
      by (simp add: removePadding_def base64_body_padding)
  qed
qed

lemma base64_chars: "c \<in> set (base64 bs) \<Longrightarrow> c \<in> set b64alphabet \<or> c = CHR ''=''"
  using base64body_alphabet [of bs]
  by (auto simp add: base64_body_padding padding_def split: if_splits)

lemma base64_no_whitespace: "filter (\<lambda>c. \<not> isAsciiWhitespace c) (base64 bs) = base64 bs"
proof -
  have "\<not> isAsciiWhitespace c" if "c \<in> set (base64 bs)" for c
    using base64_chars [OF that] alphabet_not_special(1) [of c]
    by (auto simp add: isAsciiWhitespace_def)
  then show ?thesis by (simp add: filter_id_conv)
qed

lemma atob_base64: "atob (base64 bs) = Inr bs"
proof -
  have "list_all (\<lambda>c. c \<in> set b64alphabet) (base64body bs)"
    using base64body_alphabet [of bs] by (auto simp add: list_all_iff)
  then show ?thesis
    by (simp add: atob_def base64_no_whitespace removePadding_base64 length_base64body
        b64decode_base64body)
qed

section \<open>The client's reading of a data URI\<close>

lemma splitAcc_no_sep: "sep \<notin> set xs \<Longrightarrow> splitAcc sep cur xs = [rev cur @ xs]"
  by (induction xs arbitrary: cur) auto

lemma base64_no_comma: "CHR '','' \<notin> set (base64 bs)"
  using base64_chars [of "CHR '',''" bs] alphabet_not_special(3) by auto

lemma split_data_uri:
  "split (''data:text/plain;base64,'' @ base64 bs) CHR '','' =
     [''data:text/plain;base64'', base64 bs]"
  by (simp add: split_def splitAcc_no_sep base64_no_comma)

lemma chart_data_uri: "chart (''data:text/plain;base64,'' @ base64 bs) = Inr bs"
proof -
  have "prefix ''data:'' (''data:text/plain;base64,'' @ base64 bs)" by simp
  then show ?thesis
    by (simp only: chart_def split_data_uri if_True list.case atob_base64)
qed

lemma chart_raw: "\<not> prefix ''data:'' url \<Longrightarrow> chart url = Inr url"
  by (simp add: chart_def)

lemma utf8_ascii: "list_all (\<lambda>c. (of_char c :: nat) < 128) s \<Longrightarrow> utf8 s = s"
  by (induction s) (simp_all add: utf8_def)

lemma generateERDiagram_ascii:
  "list_all (\<lambda>c. (of_char c :: nat) < 128) (generateERDiagram f d)"
  by code_simp

lemma utf8_generateERDiagram: "utf8 (generateERDiagram f d) = generateERDiagram f d"
  by (rule utf8_ascii) (rule generateERDiagram_ascii)

lemma generateERDiagram_const: "generateERDiagram f d = generateERDiagram f' d'"
  by (simp add: generateERDiagram_def)

lemma generateERDiagram_nonempty: "generateERDiagram f d \<noteq> []"
  by (simp add: generateERDiagram_def joinLines_def joinWith_def)

lemma entities_generateERDiagram:
  "entities (generateERDiagram f d) = [''USER'', ''PROFILE'', ''POST'']"
  by code_simp

lemma relationships_generateERDiagram:
  \<open>relationships (generateERDiagram f d) =
     [[''USER'', ''||--o{'', ''POST'', '':'', ''"creates"''],
      [''USER'', ''||--||'', ''PROFILE'', '':'', ''"has"'']]\<close>
  by code_simp

section \<open>The paths through the handler\<close>

lemma getProp_defined: "getProp v k = Inr x \<Longrightarrow> \<exists>y. getProp v k' = Inr y"
  by (cases v) simp_all

lemma getProp_throws: "getProp v k = Inl e \<Longrightarrow> getProp v k' = Inl e"
  by (cases v) simp_all

lemma getProp_TypeError: "getProp v k = Inl e \<Longrightarrow> e = TypeError"
  by (cases v) simp_all

lemma index_string:
  "index obj (JStr k) =
     Inr (case map_of obj k of
            Some v \<Rightarrow> Own v
          | None \<Rightarrow> if k \<in> set objectPrototypeKeys then Inherited k else Undefined)"
  by (simp add: index_def tryBind_def)

lemma index_defined: "toPropertyKey key = Inr k \<Longrightarrow> \<exists>m. index obj key = Inr m"
  by (simp add: index_def tryBind_def)

lemma buildResponse_Inr:
  assumes "getProp opts ''outputFormat'' = Inr f"
    and "index mockSchemas f = Inr m"
    and "getProp opts ''suggestAPI'' = Inr s"
    and "getProp opts ''generateERD'' = Inr g"
  shows "buildResponse opts =
           Inr \<lparr>schema = m,
                erdImageUrl = (if truthy g
                   then Some (''data:text/plain;base64,'' @ base64 (utf8 (generateERDiagram f' d')))
                   else None),
                apiRoutes = (if truthy s then Some mockAPIRoutes else None),
                explanation = Some mockExplanation\<rparr>"
proof -
  obtain d where d: "getProp opts ''databaseType'' = Inr d"
    using getProp_defined [OF assms(1)] by blast
  have "generateERDiagram f d = generateERDiagram f' d'" by (rule generateERDiagram_const)
  with assms d show ?thesis
    by (simp add: buildResponse_def tryBind_def)
qed

lemma buildResponse_throw_options:
  assumes "getProp opts ''outputFormat'' = Inl e"
  shows "buildResponse opts = Inl e"
  using assms by (simp add: buildResponse_def tryBind_def)

lemma buildResponse_throw_key:
  assumes "getProp opts ''outputFormat'' = Inr f" and "index mockSchemas f = Inl e"
  shows "buildResponse opts = Inl e"
  using assms by (simp add: buildResponse_def tryBind_def)

lemma destructure_Inr:
  assumes "getProp body ''inputCode'' = Inr c" and "getProp body ''options'' = Inr opts"
  shows "\<exists>t. destructure body = Inr (c, t, opts)"
proof -
  obtain t where "getProp body ''inputType'' = Inr t"
    using getProp_defined [OF assms(1)] by blast
  with assms show ?thesis by (simp add: destructure_def tryBind_def)
qed

lemma handle_falsy:
  assumes "getProp body ''inputCode'' = Inr c" and "\<not> truthy c"
  shows "handleGenerateSchema body = [ResJson 400 (ErrorBody ''Input code is required'')]"
proof -
  obtain opts where "getProp body ''options'' = Inr opts"
    using getProp_defined [OF assms(1)] by blast
  with assms(1) obtain t where "destructure body = Inr (c, t, opts)"
    using destructure_Inr by blast
  with assms(2) show ?thesis
    by (simp add: handleGenerateSchema_def tryBlock_def)
qed

lemma handle_success:
  assumes "getProp body ''inputCode'' = Inr c" and "truthy c"
    and "getProp body ''options'' = Inr opts"
    and "getProp opts ''outputFormat'' = Inr f"
    and "index mockSchemas f = Inr m"
    and "getProp opts ''suggestAPI'' = Inr s"
    and "getProp opts ''generateERD'' = Inr g"
  shows "handleGenerateSchema body =
           [SetTimeout 2000,
            ResJson 200 (ResponseBody
              \<lparr>schema = m,
               erdImageUrl = (if truthy g
                  then Some (''data:text/plain;base64,'' @ base64 (utf8 (generateERDiagram f' d')))
                  else None),
               apiRoutes = (if truthy s then Some mockAPIRoutes else None),
               explanation = Some mockExplanation\<rparr>)]"
proof -
  obtain t where "destructure body = Inr (c, t, opts)"
    using destructure_Inr [OF assms(1) assms(3)] by blast
  with assms(2) buildResponse_Inr [OF assms(4-7), of f' d'] show ?thesis
    by (simp add: handleGenerateSchema_def tryBlock_def)
qed

lemma handle_throw:
  assumes "getProp body ''inputCode'' = Inr c" and "truthy c"
    and "getProp body ''options'' = Inr opts"
    and "buildResponse opts = Inl e"
  shows "handleGenerateSchema body =
           [SetTimeout 2000, ConsoleError ''Schema generation error:'' e,
            ResJson 500 (ErrorBody ''Failed to generate schema'')]"
proof -
  obtain t where "destructure body = Inr (c, t, opts)"
    using destructure_Inr [OF assms(1) assms(3)] by blast
  with assms(2,4) show ?thesis
    by (simp add: handleGenerateSchema_def tryBlock_def)
qed

lemma handle_throw_options:
  assumes "getProp body ''inputCode'' = Inr c" and "truthy c"
    and "getProp body ''options'' = Inr opts"
    and "getProp opts ''outputFormat'' = Inl e"
  shows "handleGenerateSchema body =
           [SetTimeout 2000, ConsoleError ''Schema generation error:'' e,
            ResJson 500 (ErrorBody ''Failed to generate schema'')]"
  by (rule handle_throw [OF assms(1-3) buildResponse_throw_options [OF assms(4)]])

lemma handle_throw_key:
  assumes "getProp body ''inputCode'' = Inr c" and "truthy c"
    and "getProp body ''options'' = Inr opts"
    and "getProp opts ''outputFormat'' = Inr f" and "index mockSchemas f = Inl e"
  shows "handleGenerateSchema body =
           [SetTimeout 2000, ConsoleError ''Schema generation error:'' e,
            ResJson 500 (ErrorBody ''Failed to generate schema'')]"
  by (rule handle_throw [OF assms(1-3) buildResponse_throw_key [OF assms(4,5)]])

lemma handle_throw_body:
  assumes "getProp body ''inputCode'' = Inl e"
  shows "handleGenerateSchema body =
           [ConsoleError ''Schema generation error:'' e,
            ResJson 500 (ErrorBody ''Failed to generate schema'')]"
  using assms by (simp add: handleGenerateSchema_def tryBlock_def destructure_def tryBind_def)

lemma index_known:
  "index mockSchemas (JStr ''prisma'') = Inr (Own mockSchemas_prisma)"
  "index mockSchemas (JStr ''sql'') = Inr (Own mockSchemas_sql)"
  "index mockSchemas (JStr ''mongodb'') = Inr (Own mockSchemas_mongodb)"
  "index mockSchemas (JStr ''firebase'') = Inr (Own mockSchemas_firebase)"
  by (simp_all add: index_string mockSchemas_def)

lemma index_unknown:
  assumes "fmt \<notin> set [''prisma'', ''sql'', ''mongodb'', ''firebase'']"
  shows "index mockSchemas (JStr fmt) =
           Inr (if fmt \<in> set objectPrototypeKeys then Inherited fmt else Undefined)"
  using assms by (simp add: index_string mockSchemas_def)

text \<open>Every run follows one of five paths.\<close>

lemma handle_cases:
  obtains (throw_body) e where "getProp body ''inputCode'' = Inl e"
      and "handleGenerateSchema body =
             [ConsoleError ''Schema generation error:'' e,
              ResJson 500 (ErrorBody ''Failed to generate schema'')]"
  | (reject) c where "getProp body ''inputCode'' = Inr c" and "\<not> truthy c"
      and "handleGenerateSchema body = [ResJson 400 (ErrorBody ''Input code is required'')]"
  | (throw_options) c opts e where "getProp body ''inputCode'' = Inr c" and "truthy c"
      and "getProp body ''options'' = Inr opts" and "getProp opts ''outputFormat'' = Inl e"
      and "handleGenerateSchema body =
             [SetTimeout 2000, ConsoleError ''Schema generation error:'' e,
              ResJson 500 (ErrorBody ''Failed to generate schema'')]"
  | (throw_key) c opts f e where "getProp body ''inputCode'' = Inr c" and "truthy c"
      and "getProp body ''options'' = Inr opts" and "getProp opts ''outputFormat'' = Inr f"
      and "index mockSchemas f = Inl e"
      and "handleGenerateSchema body =
             [SetTimeout 2000, ConsoleError ''Schema generation error:'' e,
              ResJson 500 (ErrorBody ''Failed to generate schema'')]"
  | (success) c opts f m s g where "getProp body ''inputCode'' = Inr c" and "truthy c"
      and "getProp body ''options'' = Inr opts"
      and "getProp opts ''outputFormat'' = Inr f"
      and "index mockSchemas f = Inr m"
      and "getProp opts ''suggestAPI'' = Inr s"
      and "getProp opts ''generateERD'' = Inr g"
      and "handleGenerateSchema body =
             [SetTimeout 2000,
              ResJson 200 (ResponseBody
                \<lparr>schema = m,
                 erdImageUrl = (if truthy g
                    then Some (''data:text/plain;base64,'' @
                               base64 (utf8 (generateERDiagram JUndefined JUndefined)))
                    else None),
                 apiRoutes = (if truthy s then Some mockAPIRoutes else None),
                 explanation = Some mockExplanation\<rparr>)]"
proof (cases "getProp body ''inputCode''")
  case (Inl e)
  then show ?thesis using throw_body handle_throw_body by blast
next
  case c: (Inr c)
  then obtain opts where opts: "getProp body ''options'' = Inr opts"
    using getProp_defined by blast
  show ?thesis
  proof (cases "truthy c")
    case False
    then show ?thesis using reject c handle_falsy by blast
  next
    case True
    show ?thesis
    proof (cases "getProp opts ''outputFormat''")
      case (Inl e)
      then show ?thesis
        using throw_options [OF c True opts] handle_throw_options [OF c True opts] by blast
    next
      case f: (Inr f)
      obtain s where s: "getProp opts ''suggestAPI'' = Inr s"
        using getProp_defined [OF f] by blast
      obtain g where g: "getProp opts ''generateERD'' = Inr g"
        using getProp_defined [OF f] by blast
      show ?thesis
      proof (cases "index mockSchemas f")
        case (Inl e)
        then show ?thesis
          using throw_key [OF c True opts f] handle_throw_key [OF c True opts f] by blast
      next
        case m: (Inr m)
        show ?thesis
          using success [OF c True opts f m s g] handle_success [OF c True opts f m s g]
          by blast
      qed
    qed
  qed
qed

lemma tryBlock_throw_no_response:
  assumes "tryBlock body = (effects, Some error)"
  shows "responses effects = []"
proof (cases "destructure body")
  case (Inl e)
  with assms show ?thesis by (simp add: tryBlock_def)
next
  case (Inr triple)
  obtain c t opts where "triple = (c, t, opts)" by (cases triple)
  with Inr assms show ?thesis
    by (cases "buildResponse opts") (auto simp add: tryBlock_def split: if_splits)
qed

lemma responses_append: "responses (es @ es') = responses es @ responses es'"
  by (induction es rule: responses.induct) simp_all

text \<open>The scenario request run through the handler.\<close>

lemma scenario_props:
  "getProp scenarioRequest ''inputCode'' = Inr (JStr ''<div>x</div>'')"
  "getProp scenarioRequest ''options'' = Inr scenarioOptions"
  "getProp scenarioOptions ''outputFormat'' = Inr (JStr ''sql'')"
  "getProp scenarioOptions ''suggestAPI'' = Inr (JBool True)"
  "getProp scenarioOptions ''generateERD'' = Inr (JBool True)"
  by (simp_all add: scenarioRequest_def scenarioOptions_def)

lemma figma_props:
  "getProp figmaRequest ''inputCode'' = Inr (JStr ''https://figma.com/file/abc'')"
  "getProp figmaRequest ''options'' = Inr figmaOptions"
  "getProp figmaOptions ''outputFormat'' = Inr (JStr ''sql'')"
  "getProp figmaOptions ''suggestAPI'' = Inr (JBool True)"
  "getProp figmaOptions ''generateERD'' = Inr (JBool True)"
  by (simp_all add: figmaRequest_def figmaOptions_def)

lemma scenario_run:
  "handleGenerateSchema scenarioRequest =
     [SetTimeout 2000, ResJson 200 (ResponseBody scenarioResponse)]"
  using handle_success [OF scenario_props(1) _ scenario_props(2,3) index_known(2)
      scenario_props(4,5), of "JStr ''sql''" "JStr ''postgresql''"]
  by (simp add: scenarioResponse_def)

text \<open>What the submit button does, case by case.\<close>

lemma disabled_in_flight: "isGenerating s \<Longrightarrow> disabled s"
  by (simp add: disabled_def)

lemma disabled_no_content: "inputCode s = [] \<Longrightarrow> figmaUrl s = [] \<Longrightarrow> disabled s"
  by (simp add: disabled_def)

lemma onClick_disabled: "disabled s \<Longrightarrow> onClick s = (s, None)"
  by (simp add: onClick_def)

lemma onClick_enabled:
  "\<not> disabled s \<Longrightarrow> onClick s = (s\<lparr>isGenerating := True\<rparr>, Some (payload s))"
  by (simp add: onClick_def handleGenerate_def)

lemma payload_inputCode:
  "getProp (payload s) ''inputCode'' =
     Inr (JStr (if selectedInputType s = ''figma'' then figmaUrl s else inputCode s))"
  by (simp add: payload_def)

section \<open>Properties of the endpoint\<close>

text \<open>
  C1. A request with a non-empty \<^verbatim>\<open>inputCode\<close> whose \<^verbatim>\<open>options.outputFormat\<close> is one of
  \<^verbatim>\<open>prisma\<close>, \<^verbatim>\<open>sql\<close>, \<^verbatim>\<open>mongodb\<close>, \<^verbatim>\<open>firebase\<close> is answered, after the delay, with status
  200 and a response whose \<^verbatim>\<open>schema\<close> is exactly the text stored under that key in
  \<^verbatim>\<open>mockSchemas\<close>. Nothing is assumed about the content of \<^verbatim>\<open>inputCode\<close> (beyond being
  truthy, as every non-empty string is), about \<^verbatim>\<open>inputType\<close> or about \<^verbatim>\<open>databaseType\<close>.
\<close>

theorem canned_schema_for_known_format:
  assumes "getProp body ''inputCode'' = Inr c" and "truthy c"
    and "getProp body ''options'' = Inr opts"
    and "getProp opts ''outputFormat'' = Inr (JStr fmt)"
    and "fmt \<in> set [''prisma'', ''sql'', ''mongodb'', ''firebase'']"
  shows "\<exists>r. handleGenerateSchema body = [SetTimeout 2000, ResJson 200 (ResponseBody r)] \<and>
             map_of mockSchemas fmt =
               Some (if fmt = ''prisma'' then mockSchemas_prisma
                     else if fmt = ''sql'' then mockSchemas_sql
                     else if fmt = ''mongodb'' then mockSchemas_mongodb
                     else mockSchemas_firebase) \<and>
             schema r =
               Own (if fmt = ''prisma'' then mockSchemas_prisma
                    else if fmt = ''sql'' then mockSchemas_sql
                    else if fmt = ''mongodb'' then mockSchemas_mongodb
                    else mockSchemas_firebase)"
proof -
  obtain s where s: "getProp opts ''suggestAPI'' = Inr s"
    using getProp_defined [OF assms(4)] by blast
  obtain g where g: "getProp opts ''generateERD'' = Inr g"
    using getProp_defined [OF assms(4)] by blast
  have known:
    "map_of mockSchemas fmt =
       Some (if fmt = ''prisma'' then mockSchemas_prisma
             else if fmt = ''sql'' then mockSchemas_sql
             else if fmt = ''mongodb'' then mockSchemas_mongodb
             else mockSchemas_firebase)"
    using assms(5) by (auto simp add: mockSchemas_def)
  then have own: "index mockSchemas (JStr fmt) =
       Inr (Own (if fmt = ''prisma'' then mockSchemas_prisma
                 else if fmt = ''sql'' then mockSchemas_sql
                 else if fmt = ''mongodb'' then mockSchemas_mongodb
                 else mockSchemas_firebase))"
    by (simp add: index_string)
  show ?thesis
    using handle_success [OF assms(1-4) own s g, of JUndefined JUndefined] known by simp
qed

theorem canned_schema_for_known_format_witness:
  "\<exists>r. handleGenerateSchema scenarioRequest =
          [SetTimeout 2000, ResJson 200 (ResponseBody r)] \<and>
       map_of mockSchemas ''sql'' = Some mockSchemas_sql \<and>
       schema r = Own mockSchemas_sql"
  using canned_schema_for_known_format [OF scenario_props(1) _ scenario_props(2,3)]
  by simp

text \<open>
  C2. The response is a function of the three values read from \<^verbatim>\<open>options.outputFormat\<close>,
  \<^verbatim>\<open>options.suggestAPI\<close> and \<^verbatim>\<open>options.generateERD\<close> alone: two requests with a truthy
  \<^verbatim>\<open>inputCode\<close> whose options give the same result for these three reads (the same value,
  or the same exception when \<^verbatim>\<open>options\<close> is missing) produce the same run, hence the same
  status and the same \<^verbatim>\<open>schema\<close>, \<^verbatim>\<open>apiRoutes\<close>, \<^verbatim>\<open>explanation\<close> and \<^verbatim>\<open>erdImageUrl\<close>,
  whatever \<^verbatim>\<open>inputCode\<close>, \<^verbatim>\<open>inputType\<close> and \<^verbatim>\<open>databaseType\<close> are. The handler takes
  the request body as its only input, so the same request gives the same run.
\<close>

theorem response_depends_on_three_options_only:
  assumes "getProp body1 ''inputCode'' = Inr c1" and "truthy c1"
    and "getProp body1 ''options'' = Inr opts1"
    and "getProp body2 ''inputCode'' = Inr c2" and "truthy c2"
    and "getProp body2 ''options'' = Inr opts2"
    and "getProp opts1 ''outputFormat'' = getProp opts2 ''outputFormat''"
    and "getProp opts1 ''suggestAPI'' = getProp opts2 ''suggestAPI''"
    and "getProp opts1 ''generateERD'' = getProp opts2 ''generateERD''"
  shows "handleGenerateSchema body1 = handleGenerateSchema body2"
proof (cases "getProp opts1 ''outputFormat''")
  case (Inl e)
  then have "getProp opts2 ''outputFormat'' = Inl e" using assms(7) by simp
  with Inl show ?thesis
    using handle_throw_options [OF assms(1-3)] handle_throw_options [OF assms(4-6)] by simp
next
  case f: (Inr f)
  obtain s where s: "getProp opts1 ''suggestAPI'' = Inr s"
    using getProp_defined [OF f] by blast
  obtain g where g: "getProp opts1 ''generateERD'' = Inr g"
    using getProp_defined [OF f] by blast
  have f': "getProp opts2 ''outputFormat'' = Inr f" using f assms(7) by simp
  have s': "getProp opts2 ''suggestAPI'' = Inr s" using s assms(8) by simp
  have g': "getProp opts2 ''generateERD'' = Inr g" using g assms(9) by simp
  show ?thesis
  proof (cases "index mockSchemas f")
    case (Inl e)
    then show ?thesis
      using handle_throw_key [OF assms(1-3) f] handle_throw_key [OF assms(4-6) f'] by simp
  next
    case m: (Inr m)
    show ?thesis
      using handle_success [OF assms(1-3) f m s g, of JUndefined JUndefined]
        handle_success [OF assms(4-6) f' m s' g', of JUndefined JUndefined]
      by simp
  qed
qed

theorem response_depends_on_three_options_only_witness:
  "scenarioRequest \<noteq> figmaRequest \<and>
   handleGenerateSchema scenarioRequest = handleGenerateSchema figmaRequest"
  using response_depends_on_three_options_only
    [OF scenario_props(1) _ scenario_props(2) figma_props(1) _ figma_props(2)]
  by (simp add: scenario_props figma_props) (simp add: scenarioRequest_def figmaRequest_def)

text \<open>
  C3. When \<^verbatim>\<open>inputCode\<close> is absent from the body or is the empty string, the only thing
  the handler does is send status 400 with the message \<^verbatim>\<open>Input code is required\<close>: the
  timer is not awaited and no response object with \<^verbatim>\<open>schema\<close>, \<^verbatim>\<open>apiRoutes\<close>,
  \<^verbatim>\<open>erdImageUrl\<close> or \<^verbatim>\<open>explanation\<close> is built.
\<close>

theorem empty_input_rejected:
  assumes "getProp body ''inputCode'' = Inr c" and "c = JUndefined \<or> c = JStr []"
  shows "handleGenerateSchema body = [ResJson 400 (ErrorBody ''Input code is required'')]"
proof (rule handle_falsy [OF assms(1)])
  from assms(2) show "\<not> truthy c" by auto
qed

theorem empty_input_rejected_witness:
  "handleGenerateSchema (JObj [(''inputType'', JStr ''html''), (''options'', scenarioOptions)]) =
     [ResJson 400 (ErrorBody ''Input code is required'')] \<and>
   handleGenerateSchema (JObj [(''inputCode'', JStr []), (''options'', scenarioOptions)]) =
     [ResJson 400 (ErrorBody ''Input code is required'')]"
  using
    empty_input_rejected
      [of "JObj [(''inputType'', JStr ''html''), (''options'', scenarioOptions)]" JUndefined]
    empty_input_rejected
      [of "JObj [(''inputCode'', JStr []), (''options'', scenarioOptions)]" "JStr []"]
  by simp

text \<open>
  C4. For a request with a truthy \<^verbatim>\<open>inputCode\<close>, a format that can serve as a property key
  (every string can) and a boolean \<^verbatim>\<open>options.suggestAPI\<close>, the response sent has the member
  \<^verbatim>\<open>apiRoutes\<close> exactly when that boolean is true, and the member is then the text
  \<^verbatim>\<open>mockAPIRoutes\<close>. (For any other JSON value of \<^verbatim>\<open>suggestAPI\<close> the handler goes by its
  truthiness, lemma \<open>handle_success\<close>.)
\<close>

theorem apiRoutes_iff_suggestAPI:
  assumes "getProp body ''inputCode'' = Inr c" and "truthy c"
    and "getProp body ''options'' = Inr opts"
    and "getProp opts ''outputFormat'' = Inr fmt" and "toPropertyKey fmt = Inr key"
    and "getProp opts ''suggestAPI'' = Inr (JBool wantRoutes)"
  shows "\<exists>r. handleGenerateSchema body = [SetTimeout 2000, ResJson 200 (ResponseBody r)] \<and>
             apiRoutes r = (if wantRoutes then Some mockAPIRoutes else None)"
proof -
  obtain m where m: "index mockSchemas fmt = Inr m"
    using index_defined [OF assms(5)] by blast
  obtain g where g: "getProp opts ''generateERD'' = Inr g"
    using getProp_defined [OF assms(4)] by blast
  show ?thesis
    using handle_success [OF assms(1-4) m assms(6) g, of JUndefined JUndefined] by simp
qed

theorem apiRoutes_iff_suggestAPI_witness:
  "(\<exists>r. handleGenerateSchema scenarioRequest =
           [SetTimeout 2000, ResJson 200 (ResponseBody r)] \<and>
        apiRoutes r = Some mockAPIRoutes) \<and>
   (\<exists>r. handleGenerateSchema
           (JObj [(''inputCode'', JStr ''<div>x</div>''),
                  (''options'', JObj [(''outputFormat'', JStr ''prisma''),
                                      (''suggestAPI'', JBool False)])]) =
           [SetTimeout 2000, ResJson 200 (ResponseBody r)] \<and>
        apiRoutes r = None)"
  using
    apiRoutes_iff_suggestAPI [OF scenario_props(1) _ scenario_props(2,3) _ scenario_props(4),
      of "''sql''"]
    apiRoutes_iff_suggestAPI
      [of "JObj [(''inputCode'', JStr ''<div>x</div>''),
                 (''options'', JObj [(''outputFormat'', JStr ''prisma''),
                                     (''suggestAPI'', JBool False)])]"
          "JStr ''<div>x</div>''"
          "JObj [(''outputFormat'', JStr ''prisma''), (''suggestAPI'', JBool False)]"
          "JStr ''prisma''" "''prisma''" False]
  by simp

text \<open>
  C5. For a request with a truthy \<^verbatim>\<open>inputCode\<close>, a format that can serve as a property key
  (every string can) and a boolean \<^verbatim>\<open>options.generateERD\<close>, the response sent has the
  member \<^verbatim>\<open>erdImageUrl\<close> exactly when that boolean is true. The
  member is then \<^verbatim>\<open>data:text/plain;base64,\<close> followed by a Base64 text that \<^verbatim>\<open>atob\<close>
  decodes to one fixed diagram description: the same for all arguments \<open>f\<close>, \<open>d\<close> of
  \<^verbatim>\<open>generateERDiagram\<close>, not empty, with the entity blocks \<^verbatim>\<open>USER\<close>, \<^verbatim>\<open>PROFILE\<close>, \<^verbatim>\<open>POST\<close>
  and two relationship lines.
\<close>

theorem erdImageUrl_iff_generateERD:
  assumes \<open>getProp body ''inputCode'' = Inr c\<close> and \<open>truthy c\<close>
    and \<open>getProp body ''options'' = Inr opts\<close>
    and \<open>getProp opts ''outputFormat'' = Inr fmt\<close> and \<open>toPropertyKey fmt = Inr key\<close>
    and \<open>getProp opts ''generateERD'' = Inr (JBool wantDiagram)\<close>
  shows \<open>\<exists>r. handleGenerateSchema body = [SetTimeout 2000, ResJson 200 (ResponseBody r)] \<and>
             erdImageUrl r =
               (if wantDiagram
                then Some (''data:text/plain;base64,'' @ base64 (utf8 (generateERDiagram f d)))
                else None) \<and>
             atob (base64 (utf8 (generateERDiagram f d))) =
               Inr (generateERDiagram JUndefined JUndefined) \<and>
             generateERDiagram JUndefined JUndefined \<noteq> [] \<and>
             entities (generateERDiagram JUndefined JUndefined) =
               [''USER'', ''PROFILE'', ''POST''] \<and>
             relationships (generateERDiagram JUndefined JUndefined) =
               [[''USER'', ''||--o{'', ''POST'', '':'', ''"creates"''],
                [''USER'', ''||--||'', ''PROFILE'', '':'', ''"has"'']]\<close>
proof -
  obtain m where m: "index mockSchemas fmt = Inr m"
    using index_defined [OF assms(5)] by blast
  obtain s where s: "getProp opts ''suggestAPI'' = Inr s"
    using getProp_defined [OF assms(4)] by blast
  have same: "generateERDiagram f d = generateERDiagram JUndefined JUndefined"
    by (rule generateERDiagram_const)
  have decoded:
    "atob (base64 (utf8 (generateERDiagram f d))) = Inr (generateERDiagram JUndefined JUndefined)"
    using atob_base64 [of "generateERDiagram f d"] utf8_generateERDiagram [of f d] same
    by simp
  show ?thesis
    using handle_success [OF assms(1-4) m s assms(6), of f d] decoded
      generateERDiagram_nonempty [of JUndefined JUndefined]
      entities_generateERDiagram [of JUndefined JUndefined]
      relationships_generateERDiagram [of JUndefined JUndefined]
    by simp
qed

theorem erdImageUrl_iff_generateERD_witness:
  \<open>(\<exists>r. handleGenerateSchema scenarioRequest =
           [SetTimeout 2000, ResJson 200 (ResponseBody r)] \<and>
        erdImageUrl r =
          Some (''data:text/plain;base64,'' @
                base64 (utf8 (generateERDiagram (JStr ''sql'') (JStr ''postgresql'')))) \<and>
        atob (base64 (utf8 (generateERDiagram (JStr ''sql'') (JStr ''postgresql'')))) =
          Inr (generateERDiagram JUndefined JUndefined)) \<and>
   (\<exists>r. handleGenerateSchema
           (JObj [(''inputCode'', JStr ''<div>x</div>''),
                  (''options'', JObj [(''outputFormat'', JStr ''prisma''),
                                      (''generateERD'', JBool False)])]) =
           [SetTimeout 2000, ResJson 200 (ResponseBody r)] \<and>
        erdImageUrl r = None)\<close>
  using
    erdImageUrl_iff_generateERD [OF scenario_props(1) _ scenario_props(2,3) _ scenario_props(5),
      of "''sql''" "JStr ''sql''" "JStr ''postgresql''"]
    erdImageUrl_iff_generateERD
      [of "JObj [(''inputCode'', JStr ''<div>x</div>''),
                 (''options'', JObj [(''outputFormat'', JStr ''prisma''),
                                     (''generateERD'', JBool False)])]"
          "JStr ''<div>x</div>''"
          "JObj [(''outputFormat'', JStr ''prisma''), (''generateERD'', JBool False)]"
          "JStr ''prisma''" "''prisma''" False JUndefined JUndefined]
  by simp blast

text \<open>
  C6. Whenever a run of the handler sends a response object that has an \<^verbatim>\<open>erdImageUrl\<close>,
  the client's rule for the \<^verbatim>\<open>chart\<close> property (a value that starts with \<^verbatim>\<open>data:\<close> is
  split at the commas and its second piece is decoded by \<^verbatim>\<open>atob\<close>; any other value is
  passed on as it is) applied to that member returns, without an exception, exactly the
  text of \<^verbatim>\<open>generateERDiagram\<close>.
\<close>

theorem chart_recovers_diagram:
  assumes "ResJson status (ResponseBody r) \<in> set (handleGenerateSchema body)"
    and "erdImageUrl r = Some url"
  shows "chart url = Inr (generateERDiagram f d)"
proof (cases body rule: handle_cases)
  case (throw_body e)
  with assms(1) show ?thesis by simp
next
  case (reject c)
  with assms(1) show ?thesis by simp
next
  case (throw_options c opts e)
  with assms(1) show ?thesis by simp
next
  case (throw_key c opts fmt e)
  with assms(1) show ?thesis by simp
next
  case (success c opts fmt m s g)
  with assms have "url = ''data:text/plain;base64,'' @
      base64 (utf8 (generateERDiagram JUndefined JUndefined))"
    by (auto split: if_splits)
  then have "chart url = Inr (utf8 (generateERDiagram JUndefined JUndefined))"
    by (simp only: chart_data_uri)
  also have "utf8 (generateERDiagram JUndefined JUndefined) = generateERDiagram f d"
    using utf8_generateERDiagram [of JUndefined JUndefined]
      generateERDiagram_const [of JUndefined JUndefined f d] by simp
  finally show ?thesis .
qed

theorem chart_recovers_diagram_witness:
  "ResJson 200 (ResponseBody scenarioResponse) \<in> set (handleGenerateSchema scenarioRequest) \<and>
   erdImageUrl scenarioResponse =
     Some (''data:text/plain;base64,'' @
           base64 (utf8 (generateERDiagram (JStr ''sql'') (JStr ''postgresql'')))) \<and>
   chart (''data:text/plain;base64,'' @
          base64 (utf8 (generateERDiagram (JStr ''sql'') (JStr ''postgresql'')))) =
     Inr (generateERDiagram (JStr ''sql'') (JStr ''postgresql''))"
proof -
  have sent: "ResJson 200 (ResponseBody scenarioResponse) \<in> set (handleGenerateSchema scenarioRequest)"
    by (simp add: scenario_run)
  have url: "erdImageUrl scenarioResponse =
     Some (''data:text/plain;base64,'' @
           base64 (utf8 (generateERDiagram (JStr ''sql'') (JStr ''postgresql''))))"
    by (simp add: scenarioResponse_def)
  from sent url chart_recovers_diagram [OF sent url, of "JStr ''sql''" "JStr ''postgresql''"]
  show ?thesis by (simp only: simp_thms)
qed

text \<open>
  C7, as the specification states it: a request with a non-empty \<^verbatim>\<open>inputCode\<close> whose
  \<^verbatim>\<open>outputFormat\<close> is none of the four known values fails with a validation error. The
  handler does not check the format: for \<^verbatim>\<open>yaml\<close> it waits and sends status 200 with a
  response object whose \<^verbatim>\<open>schema\<close> is \<^verbatim>\<open>undefined\<close>.
\<close>

theorem unknown_format_counterexample:
  "handleGenerateSchema
     (JObj [(''inputCode'', JStr ''<div>x</div>''),
            (''inputType'', JStr ''html''),
            (''options'',
               JObj [(''outputFormat'', JStr ''yaml''),
                     (''databaseType'', JStr ''postgresql''),
                     (''suggestAPI'', JBool False),
                     (''generateERD'', JBool False)])]) =
   [SetTimeout 2000,
    ResJson 200 (ResponseBody
      \<lparr>schema = Undefined, erdImageUrl = None, apiRoutes = None,
       explanation = Some mockExplanation\<rparr>)]"
proof -
  have "index mockSchemas (JStr ''yaml'') = Inr Undefined"
    by (simp add: index_unknown objectPrototypeKeys_def)
  then show ?thesis
    using handle_success
      [of "JObj [(''inputCode'', JStr ''<div>x</div>''),
                 (''inputType'', JStr ''html''),
                 (''options'',
                    JObj [(''outputFormat'', JStr ''yaml''),
                          (''databaseType'', JStr ''postgresql''),
                          (''suggestAPI'', JBool False),
                          (''generateERD'', JBool False)])]"
          "JStr ''<div>x</div>''"
          "JObj [(''outputFormat'', JStr ''yaml''),
                 (''databaseType'', JStr ''postgresql''),
                 (''suggestAPI'', JBool False),
                 (''generateERD'', JBool False)]"
          "JStr ''yaml''" Undefined "JBool False" "JBool False" JUndefined JUndefined]
    by simp
qed

text \<open>
  C7, amended: a request with a truthy \<^verbatim>\<open>inputCode\<close> whose \<^verbatim>\<open>outputFormat\<close> is a string
  other than \<^verbatim>\<open>prisma\<close>, \<^verbatim>\<open>sql\<close>, \<^verbatim>\<open>mongodb\<close>, \<^verbatim>\<open>firebase\<close> is not rejected. After the
  delay the handler sends status 200 with a response object that carries the explanation
  and whose \<^verbatim>\<open>schema\<close> is no canned text: it is \<^verbatim>\<open>undefined\<close>, or the member inherited
  from \<^verbatim>\<open>Object.prototype\<close> when the format is the name of one.
\<close>

theorem unknown_format_answered_without_schema:
  assumes "getProp body ''inputCode'' = Inr c" and "truthy c"
    and "getProp body ''options'' = Inr opts"
    and "getProp opts ''outputFormat'' = Inr (JStr fmt)"
    and "fmt \<notin> set [''prisma'', ''sql'', ''mongodb'', ''firebase'']"
  shows "\<exists>r. handleGenerateSchema body = [SetTimeout 2000, ResJson 200 (ResponseBody r)] \<and>
             schema r = (if fmt \<in> set objectPrototypeKeys then Inherited fmt else Undefined) \<and>
             explanation r = Some mockExplanation"
proof -
  obtain s where s: "getProp opts ''suggestAPI'' = Inr s"
    using getProp_defined [OF assms(4)] by blast
  obtain g where g: "getProp opts ''generateERD'' = Inr g"
    using getProp_defined [OF assms(4)] by blast
  show ?thesis
    using handle_success [OF assms(1-4) index_unknown [OF assms(5)] s g,
        of JUndefined JUndefined]
    by simp
qed

theorem unknown_format_answered_without_schema_witness:
  "\<exists>r. handleGenerateSchema
          (JObj [(''inputCode'', JStr ''<div>x</div>''),
                 (''options'', JObj [(''outputFormat'', JStr ''yaml'')])]) =
          [SetTimeout 2000, ResJson 200 (ResponseBody r)] \<and>
       schema r = Undefined \<and>
       explanation r = Some mockExplanation"
  using unknown_format_answered_without_schema
      [of "JObj [(''inputCode'', JStr ''<div>x</div>''),
                 (''options'', JObj [(''outputFormat'', JStr ''yaml'')])]"
          "JStr ''<div>x</div>''" "JObj [(''outputFormat'', JStr ''yaml'')]" "''yaml''"]
  by (simp add: objectPrototypeKeys_def)

text \<open>
  C9. Whenever the \<^verbatim>\<open>try\<close> block of the handler ends with an exception, the run is what
  the block had done, then the log line, then status 500 with the fixed message
  \<^verbatim>\<open>Failed to generate schema\<close>; that error is the only response the run sends, so no
  response object with \<^verbatim>\<open>schema\<close>, \<^verbatim>\<open>apiRoutes\<close>, \<^verbatim>\<open>erdImageUrl\<close> or \<^verbatim>\<open>explanation\<close>
  goes out.
\<close>

theorem internal_failure_sends_only_500:
  assumes "tryBlock body = (effects, Some error)"
  shows "handleGenerateSchema body =
           effects @ [ConsoleError ''Schema generation error:'' error,
                      ResJson 500 (ErrorBody ''Failed to generate schema'')] \<and>
         responses (handleGenerateSchema body) =
           [(500, ErrorBody ''Failed to generate schema'')]"
proof -
  have run: "handleGenerateSchema body =
      effects @ [ConsoleError ''Schema generation error:'' error,
                 ResJson 500 (ErrorBody ''Failed to generate schema'')]"
    using assms by (simp add: handleGenerateSchema_def)
  moreover have "responses effects = []"
    by (rule tryBlock_throw_no_response [OF assms])
  ultimately show ?thesis by (simp add: responses_append)
qed

theorem internal_failure_sends_only_500_witness:
  "tryBlock (JObj [(''inputCode'', JStr ''<div>x</div>'')]) = ([SetTimeout 2000], Some TypeError) \<and>
   handleGenerateSchema (JObj [(''inputCode'', JStr ''<div>x</div>'')]) =
     [SetTimeout 2000, ConsoleError ''Schema generation error:'' TypeError,
      ResJson 500 (ErrorBody ''Failed to generate schema'')] \<and>
   responses (handleGenerateSchema (JObj [(''inputCode'', JStr ''<div>x</div>'')])) =
     [(500, ErrorBody ''Failed to generate schema'')]"
proof -
  have thrown: "tryBlock (JObj [(''inputCode'', JStr ''<div>x</div>'')]) =
      ([SetTimeout 2000], Some TypeError)"
    by (simp add: tryBlock_def destructure_def buildResponse_throw_options tryBind_def)
  from thrown internal_failure_sends_only_500 [OF thrown] show ?thesis by simp
qed

text \<open>
  C10, as the specification states it: a body with a non-empty \<^verbatim>\<open>inputCode\<close> and a missing
  or non-object \<^verbatim>\<open>options\<close> makes the handler throw at \<^verbatim>\<open>options.outputFormat\<close> and ends
  as status 500. A number is not an object, yet reading a property of a number throws
  nothing: with \<^verbatim>\<open>options\<close> equal to 5 the handler waits and sends status 200 with a
  response object that has the explanation and no schema.
\<close>

theorem non_object_options_counterexample:
  "handleGenerateSchema
     (JObj [(''inputCode'', JStr ''<div>x</div>''), (''options'', JNum 5)]) =
   [SetTimeout 2000,
    ResJson 200 (ResponseBody
      \<lparr>schema = Undefined, erdImageUrl = None, apiRoutes = None,
       explanation = Some mockExplanation\<rparr>)]"
proof -
  have "index mockSchemas JUndefined = Inr Undefined"
    by (simp add: index_def tryBind_def mockSchemas_def objectPrototypeKeys_def)
  then show ?thesis
    using handle_success
      [of "JObj [(''inputCode'', JStr ''<div>x</div>''), (''options'', JNum 5)]"
          "JStr ''<div>x</div>''" "JNum 5" JUndefined Undefined JUndefined JUndefined
          JUndefined JUndefined]
    by simp
qed

text \<open>
  C10, amended: a body with a truthy \<^verbatim>\<open>inputCode\<close> whose \<^verbatim>\<open>options\<close> is missing or
  \<^verbatim>\<open>null\<close> is not rejected with status 400 (that check looks at \<^verbatim>\<open>inputCode\<close> only).
  The handler awaits the delay, throws a TypeError when it reads \<^verbatim>\<open>options.outputFormat\<close>,
  logs it and sends status 500 with the message \<^verbatim>\<open>Failed to generate schema\<close>. When
  \<^verbatim>\<open>options\<close> is a boolean, a number, a string or an array, which is not an object
  either, no read throws and the request succeeds: after the delay the handler sends
  status 200 with a response object that has the explanation and no \<^verbatim>\<open>schema\<close>, no
  \<^verbatim>\<open>apiRoutes\<close> and no \<^verbatim>\<open>erdImageUrl\<close>.
\<close>

theorem options_not_an_object:
  assumes "getProp body ''inputCode'' = Inr c" and "truthy c"
    and "getProp body ''options'' = Inr opts"
    and "opts = JUndefined \<or> opts = JNull \<or> opts = JBool b \<or> opts = JNum n \<or>
         opts = JStr s \<or> opts = JArr xs"
  shows "handleGenerateSchema body =
           (if opts = JUndefined \<or> opts = JNull
            then [SetTimeout 2000, ConsoleError ''Schema generation error:'' TypeError,
                  ResJson 500 (ErrorBody ''Failed to generate schema'')]
            else [SetTimeout 2000,
                  ResJson 200 (ResponseBody
                    \<lparr>schema = Undefined, erdImageUrl = None, apiRoutes = None,
                     explanation = Some mockExplanation\<rparr>)])"
proof (cases "opts = JUndefined \<or> opts = JNull")
  case True
  then have "getProp opts ''outputFormat'' = Inl TypeError" by auto
  from handle_throw_options [OF assms(1-3) this] True show ?thesis by simp
next
  case False
  with assms(4) have reads: "getProp opts ''outputFormat'' = Inr JUndefined"
    "getProp opts ''suggestAPI'' = Inr JUndefined"
    "getProp opts ''generateERD'' = Inr JUndefined"
    by auto
  have key: "index mockSchemas JUndefined = Inr Undefined"
    by (simp add: index_def tryBind_def mockSchemas_def objectPrototypeKeys_def)
  from handle_success [OF assms(1-3) reads(1) key reads(2,3), of JUndefined JUndefined] False
  show ?thesis by simp
qed

theorem options_not_an_object_witness:
  "handleGenerateSchema (JObj [(''inputCode'', JStr ''<div>x</div>'')]) =
     [SetTimeout 2000, ConsoleError ''Schema generation error:'' TypeError,
      ResJson 500 (ErrorBody ''Failed to generate schema'')] \<and>
   handleGenerateSchema (JObj [(''inputCode'', JStr ''<div>x</div>''), (''options'', JNull)]) =
     [SetTimeout 2000, ConsoleError ''Schema generation error:'' TypeError,
      ResJson 500 (ErrorBody ''Failed to generate schema'')] \<and>
   handleGenerateSchema
     (JObj [(''inputCode'', JStr ''<div>x</div>''), (''options'', JStr ''prisma'')]) =
     [SetTimeout 2000,
      ResJson 200 (ResponseBody
        \<lparr>schema = Undefined, erdImageUrl = None, apiRoutes = None,
         explanation = Some mockExplanation\<rparr>)] \<and>
   handleGenerateSchema
     (JObj [(''inputCode'', JStr ''<div>x</div>''), (''options'', JArr [JBool True])]) =
     [SetTimeout 2000,
      ResJson 200 (ResponseBody
        \<lparr>schema = Undefined, erdImageUrl = None, apiRoutes = None,
         explanation = Some mockExplanation\<rparr>)]"
  using
    options_not_an_object
      [of "JObj [(''inputCode'', JStr ''<div>x</div>'')]" "JStr ''<div>x</div>''" JUndefined]
    options_not_an_object
      [of "JObj [(''inputCode'', JStr ''<div>x</div>''), (''options'', JNull)]"
          "JStr ''<div>x</div>''" JNull]
    options_not_an_object
      [of "JObj [(''inputCode'', JStr ''<div>x</div>''), (''options'', JStr ''prisma'')]"
          "JStr ''<div>x</div>''" "JStr ''prisma''" _ _ "''prisma''"]
    options_not_an_object
      [of "JObj [(''inputCode'', JStr ''<div>x</div>''), (''options'', JArr [JBool True])]"
          "JStr ''<div>x</div>''" "JArr [JBool True]" _ _ _ "[JBool True]"]
  by simp

section \<open>The submit button\<close>

text \<open>
  C8. The specification requires the button to be disabled whenever the content of the
  selected input kind is empty. With the React tab selected, its text buffer empty and a
  URL left in the Figma field, the button is enabled although no submission is in flight;
  a click sends a payload whose \<^verbatim>\<open>inputCode\<close> is the empty string, and the endpoint
  answers it with status 400.
\<close>

theorem submit_enabled_with_empty_selected_content:
  "selectedInputType reactTabWithFigmaUrl = ''react'' \<and>
   inputCode reactTabWithFigmaUrl = [] \<and>
   figmaUrl reactTabWithFigmaUrl = ''https://figma.com/file/abc'' \<and>
   isGenerating reactTabWithFigmaUrl = False \<and>
   disabled reactTabWithFigmaUrl = False \<and>
   onClick reactTabWithFigmaUrl =
     (reactTabWithFigmaUrl\<lparr>isGenerating := True\<rparr>, Some (payload reactTabWithFigmaUrl)) \<and>
   getProp (payload reactTabWithFigmaUrl) ''inputCode'' = Inr (JStr []) \<and>
   handleGenerateSchema (payload reactTabWithFigmaUrl) =
     [ResJson 400 (ErrorBody ''Input code is required'')]"
proof -
  have enabled: "\<not> disabled reactTabWithFigmaUrl"
    by (simp add: disabled_def reactTabWithFigmaUrl_def)
  have sent: "getProp (payload reactTabWithFigmaUrl) ''inputCode'' = Inr (JStr [])"
    by (simp add: payload_inputCode reactTabWithFigmaUrl_def)
  have "handleGenerateSchema (payload reactTabWithFigmaUrl) =
      [ResJson 400 (ErrorBody ''Input code is required'')]"
    by (rule handle_falsy [OF sent]) simp
  with enabled sent onClick_enabled [OF enabled] show ?thesis
    by (simp add: reactTabWithFigmaUrl_def)
qed

end
